theory Spec2Isabelle
  imports Main "HOL-Library.Sublist"
begin

section \<open>Library functions the endpoint code calls\<close>

text \<open>
  Go strings are byte sequences, so a Go string is a \<open>string\<close> (a list of 8-bit
  characters) here. The functions of this section belong to the Go standard library
  (packages \<open>strings\<close> and \<open>net\<close>); they are written out as the library computes them.
\<close>

text \<open>\<open>strings.Contains(s, substr)\<close>: \<open>substr\<close> occurs in \<open>s\<close> as a contiguous block.\<close>

fun Contains :: "string \<Rightarrow> string \<Rightarrow> bool" where
  "Contains [] substr = (substr = [])"
| "Contains (c # cs) substr = (prefix substr (c # cs) \<or> Contains cs substr)"

text \<open>
  \<open>net.JoinHostPort(host, port)\<close>: a host that has a colon is taken for an IPv6 literal
  and put in brackets.
\<close>

definition JoinHostPort :: "string \<Rightarrow> string \<Rightarrow> string" where
  "JoinHostPort host port =
     (if CHR '':'' \<in> set host then ''['' @ host @ '']:'' @ port else host @ '':'' @ port)"

text \<open>\<open>strings.Join(elems, sep)\<close>.\<close>

fun Join :: "string list \<Rightarrow> string \<Rightarrow> string" where
  "Join [] sep = []"
| "Join [x] sep = x"
| "Join (x # y # ys) sep = x @ sep @ Join (y # ys) sep"

text \<open>
  \<open>net.SplitHostPort\<close>, the library's parser of \<open>host:port\<close>, which decides
  whether an address carries a port: the port starts after the last colon; a host in
  brackets must end just before that colon; a host without brackets must have no colon.
\<close>

datatype addr_error =
  MissingPort | TooManyColons | MissingCloseBracket | UnexpectedOpenBracket
| UnexpectedCloseBracket

definition IndexByte :: "string \<Rightarrow> char \<Rightarrow> nat" where
  "IndexByte s c = length (takeWhile (\<lambda>x. x \<noteq> c) s)"

definition LastIndexByte :: "string \<Rightarrow> char \<Rightarrow> nat" where
  "LastIndexByte s c = length s - 1 - length (takeWhile (\<lambda>x. x \<noteq> c) (rev s))"

definition SplitHostPort :: "string \<Rightarrow> addr_error + (string \<times> string)" where
  "SplitHostPort hostport =
     (if CHR '':'' \<notin> set hostport then Inl MissingPort
      else
        (let i = LastIndexByte hostport CHR '':'' in
         if hostport ! 0 = CHR ''['' then
           (if CHR '']'' \<notin> set hostport then Inl MissingCloseBracket
            else
              (let close = IndexByte hostport CHR '']'' in
               if close + 1 = length hostport then Inl MissingPort
               else if close + 1 = i then
                 (if CHR ''['' \<in> set (drop 1 hostport) then Inl UnexpectedOpenBracket
                  else if CHR '']'' \<in> set (drop (close + 1) hostport)
                    then Inl UnexpectedCloseBracket
                  else Inr (take (close - 1) (drop 1 hostport), drop (i + 1) hostport))
               else if hostport ! (close + 1) = CHR '':'' then Inl TooManyColons
               else Inl MissingPort))
         else
           (if CHR '':'' \<in> set (take i hostport) then Inl TooManyColons
            else if CHR ''['' \<in> set hostport then Inl UnexpectedOpenBracket
            else if CHR '']'' \<in> set hostport then Inl UnexpectedCloseBracket
            else Inr (take i hostport, drop (i + 1) hostport))))"

section \<open>The endpoint\<close>

text \<open>
  The transport handle stored in an endpoint. The two constructors \<open>newTransportH2\<close>
  and \<open>newTransportH3\<close> are called with the endpoint and an address list; a handle
  records which constructor built it, the endpoint's hostname at the time of the call
  and the address list it was given.
\<close>

datatype transport =
  TransportH2 string "string list"
| TransportH3 string "string list"

text \<open>
  \<open>DOHEndpoint\<close>, field by field. \<open>once\<close> is the state of the \<open>sync.Once\<close>: whether
  its function has already run. A nil \<open>transport\<close> is \<open>None\<close>. The callback
  \<open>onConnect\<close> is not read by any function modelled here and is left out.
\<close>

record DOHEndpoint =
  Hostname :: string
  Path :: string
  Bootstrap :: "string list"
  ALPN :: "string list"
  DoH3Supported :: bool
  FastestIP :: string
  once :: bool
  transport :: "transport option"

subsection \<open>Address ordering\<close>

text \<open>
  The port normalisation that \<open>endpointAddrs\<close> writes out twice (for each bootstrap
  address and for \<open>FastestIP\<close>): an address with no colon gets port 443, any other
  address is kept as it is.
\<close>

definition defaultPort :: "string \<Rightarrow> string" where
  "defaultPort ip = (if \<not> Contains ip '':'' then JoinHostPort ip ''443'' else ip)"

text \<open>
  \<open>endpointAddrs\<close>: the first loop appends the normalised bootstrap addresses in
  order; with a non-empty \<open>FastestIP\<close> the second loop keeps the addresses that differ
  from the normalised \<open>FastestIP\<close>, and the result is that address followed by them.
\<close>

definition endpointAddrs :: "DOHEndpoint \<Rightarrow> string list" where
  "endpointAddrs e =
     (let addrs = map defaultPort (Bootstrap e) in
      if FastestIP e \<noteq> '''' then
        (let fastest = defaultPort (FastestIP e);
             filtered = filter (\<lambda>a. a \<noteq> fastest) addrs
         in [fastest] @ filtered)
      else addrs)"

section \<open>The environment\<close>

text \<open>
  Errors as the code meets them: \<open>context.DeadlineExceeded\<close>, \<open>io.EOF\<close>, an error
  in whose chain \<open>errors.As\<close> finds an \<open>x509.UnknownAuthorityError\<close> (with the error's
  own message and, unless the \<open>Cert\<close> pointer of the authority error is nil, the
  printed subject and issuer of the certificate), and any other error with its message.
\<close>

datatype error =
  DeadlineExceeded
| EOF
| UnknownAuthorityError string "(string \<times> string) option"
| OtherError string

text \<open>\<open>err.Error()\<close>, which \<open>%v\<close> prints.\<close>

fun Error :: "error \<Rightarrow> string" where
  "Error DeadlineExceeded = ''context deadline exceeded''"
| "Error EOF = ''EOF''"
| "Error (UnknownAuthorityError msg cert) = msg"
| "Error (OtherError msg) = msg"

text \<open>
  A method call or field access through a nil pointer panics, and so does
  \<open>Request.WithContext\<close> with a nil context; the functions that can reach one of
  them return \<open>Inl\<close> of the panic there.
\<close>

datatype panic = NilPointerDereference | NilContext

text \<open>
  A \<open>context.Context\<close>: the background context, a context derived from another with
  a timeout (in nanoseconds), or a context of the caller's making, named by a number.
\<close>

datatype Context =
  Background
| WithTimeout Context nat
| CallerContext nat

text \<open>
  An \<open>http.Request\<close> as far as the code sets it: its context, method, URL, the
  \<open>Content-Type\<close> header and the body (\<open>None\<close> for a nil body).
\<close>

record request =
  Ctx :: Context
  Method :: string
  URL :: string
  ContentType :: string
  Payload :: "string option"

text \<open>
  An \<open>http.Response\<close> as far as the code reads it: the status code, and what the
  first \<open>Read\<close> on its body delivers (the bytes that are ready and the error that comes
  with them, \<open>None\<close> for nil).
\<close>

record response =
  StatusCode :: int
  Ready :: string
  ReadErr :: "error option"

text \<open>
  What a transport's \<open>RoundTrip\<close> returns: a response with a nil error, an error with
  a nil response, or an error together with a response. A nil response with a nil error
  is excluded by the contract of \<open>http.RoundTripper\<close>.
\<close>

datatype rt_result =
  RoundTripOK response
| RoundTripErr error
| RoundTripErrResp error response

text \<open>
  The observable effects: a QUIC dial (context, address, TLS server name, offered
  protocols), a
  round trip of a request through a transport, a read on a response body, and the
  closing of a response body. Log lines are not recorded.
\<close>

datatype event =
  DialAddrEarly Context string string "string list"
| TransportRoundTrip transport request
| BodyRead response
| BodyClose response

text \<open>
  The world threaded through the code: \<open>events\<close> is the trace of effects so far, and
  \<open>clock\<close> counts the network operations (dials and round trips) issued so far.
\<close>

record world =
  clock :: nat
  events :: "event list"

text \<open>
  What the code cannot decide by itself is a parameter. The outcome of a network
  operation may depend on its arguments, among them the context it runs under, and on
  when it is issued (the clock):
  \<^item> \<open>dial t ctx addr serverName nextProtos\<close> is the error of \<open>quic.DialAddrEarly\<close>
    (\<open>None\<close> for nil: the handshake succeeded);
  \<^item> \<open>roundTrip t tr req\<close> is what the transport \<open>tr\<close> returns for \<open>req\<close>;
  \<^item> \<open>newRequest url\<close> tells whether \<open>http.NewRequest\<close> accepts the URL (it
    returns a nil request and an error otherwise);
  \<^item> \<open>foldUnicode s t\<close> is the answer of \<open>strings.EqualFold\<close> on its slow path,
    entered at the first byte outside ASCII.
\<close>

record environment =
  dial :: "nat \<Rightarrow> Context \<Rightarrow> string \<Rightarrow> string \<Rightarrow> string list \<Rightarrow> error option"
  roundTrip :: "nat \<Rightarrow> transport \<Rightarrow> request \<Rightarrow> rt_result"
  newRequest :: "string \<Rightarrow> bool"
  foldUnicode :: "string \<Rightarrow> string \<Rightarrow> bool"

definition doDial ::
  "environment \<Rightarrow> Context \<Rightarrow> string \<Rightarrow> string \<Rightarrow> string list \<Rightarrow> world \<Rightarrow>
     error option \<times> world" where
  "doDial env ctx addr serverName nextProtos w =
     (dial env (clock w) ctx addr serverName nextProtos,
      \<lparr>clock = Suc (clock w),
       events = events w @ [DialAddrEarly ctx addr serverName nextProtos]\<rparr>)"

definition doRoundTrip :: "environment \<Rightarrow> transport \<Rightarrow> request \<Rightarrow> world \<Rightarrow> rt_result \<times> world" where
  "doRoundTrip env tr req w =
     (roundTrip env (clock w) tr req,
      \<lparr>clock = Suc (clock w), events = events w @ [TransportRoundTrip tr req]\<rparr>)"

definition closeBody :: "response \<Rightarrow> world \<Rightarrow> world" where
  "closeBody resp w = w\<lparr>events := events w @ [BodyClose resp]\<rparr>"

text \<open>
  \<open>res.Body.Read(buf)\<close>: the ready bytes that fit are copied to the front of \<open>buf\<close>;
  the body's error is reported once all ready bytes have been delivered.
\<close>

definition readBody :: "response \<Rightarrow> string \<Rightarrow> world \<Rightarrow> (nat \<times> error option \<times> string) \<times> world" where
  "readBody resp buf w =
     (let n = min (length (Ready resp)) (length buf);
          err = (if length (Ready resp) \<le> length buf then ReadErr resp else None)
      in ((n, err, take n (Ready resp) @ drop n buf),
          w\<lparr>events := events w @ [BodyRead resp]\<rparr>))"

text \<open>
  Modelled from the spec: the transport constructors \<open>newTransportH2\<close> and
  \<open>newTransportH3\<close> of this package are not among the sources. The spec describes
  them as constructors taking the endpoint and the ordered addresses, doing no network
  I/O and unable to fail.
\<close>

definition newTransportH2 :: "DOHEndpoint \<Rightarrow> string list \<Rightarrow> transport" where
  "newTransportH2 e addrs = TransportH2 (Hostname e) addrs"

definition newTransportH3 :: "DOHEndpoint \<Rightarrow> string list \<Rightarrow> transport" where
  "newTransportH3 e addrs = TransportH3 (Hostname e) addrs"

section \<open>The capability prober\<close>

text \<open>
  The loop of \<open>probeDoH3\<close> over the remaining addresses, with \<open>lastErr\<close> as the loop
  carries it.
\<close>

fun probeDoH3_loop ::
  "environment \<Rightarrow> Context \<Rightarrow> string \<Rightarrow> string list \<Rightarrow> error option \<Rightarrow> world \<Rightarrow>
     error option \<times> world" where
  "probeDoH3_loop env ctx endpoint [] lastErr w = (lastErr, w)"
| "probeDoH3_loop env ctx endpoint (ip # ips) lastErr w =
     (let addr = JoinHostPort ip ''443'' in
      case doDial env ctx addr endpoint [''h3''] w of
        (None, w') \<Rightarrow> (None, w')
      | (Some err, w') \<Rightarrow> probeDoH3_loop env ctx endpoint ips (Some err) w')"

definition probeDoH3 ::
  "environment \<Rightarrow> Context \<Rightarrow> string \<Rightarrow> string list \<Rightarrow> world \<Rightarrow> error option \<times> world" where
  "probeDoH3 env ctx endpoint bootstrapIPs w =
     (if length bootstrapIPs = 0 then (Some DeadlineExceeded, w)
      else probeDoH3_loop env ctx endpoint bootstrapIPs None w)"

text \<open>
  The loop of \<open>probeDoH3Request\<close>. The error of \<open>http.NewRequestWithContext\<close> is
  dropped by the code, so a URL it rejects leaves \<open>req\<close> nil and \<open>req.Header.Set\<close>
  panics.
\<close>

fun probeDoH3Request_loop ::
  "environment \<Rightarrow> Context \<Rightarrow> string \<Rightarrow> string list \<Rightarrow> world \<Rightarrow>
     panic + (error option \<times> world)" where
  "probeDoH3Request_loop env ctx endpoint [] w = Inr (Some DeadlineExceeded, w)"
| "probeDoH3Request_loop env ctx endpoint (ip # ips) w =
     (let url = ''https://'' @ endpoint @ ''/dns-query'';
          tr = newTransportH3
                 \<lparr>Hostname = endpoint, Path = '''', Bootstrap = [], ALPN = [],
                  DoH3Supported = False, FastestIP = '''', once = False, transport = None\<rparr>
                 [ip]
      in if \<not> newRequest env url then Inl NilPointerDereference
         else
           (let req = \<lparr>Ctx = ctx, Method = ''POST'', URL = url,
                       ContentType = ''application/dns-message'', Payload = None\<rparr>
            in case doRoundTrip env tr req w of
                 (RoundTripOK resp, w') \<Rightarrow>
                   if StatusCode resp = 200 then Inr (None, closeBody resp w')
                   else probeDoH3Request_loop env ctx endpoint ips (closeBody resp w')
               | (RoundTripErr err, w') \<Rightarrow> probeDoH3Request_loop env ctx endpoint ips w'
               | (RoundTripErrResp err resp, w') \<Rightarrow>
                   probeDoH3Request_loop env ctx endpoint ips (closeBody resp w')))"

definition probeDoH3Request ::
  "environment \<Rightarrow> Context \<Rightarrow> string \<Rightarrow> string list \<Rightarrow> world \<Rightarrow>
     panic + (error option \<times> world)" where
  "probeDoH3Request env ctx endpoint bootstrapIPs w =
     (if length bootstrapIPs = 0 then Inr (Some DeadlineExceeded, w)
      else probeDoH3Request_loop env ctx endpoint bootstrapIPs w)"

text \<open>
  The context that \<open>SupportsDoH3\<close> creates for both probes:
  \<open>context.WithTimeout(context.Background(), 2*time.Second)\<close>, a \<open>time.Second\<close>
  being 1000000000 nanoseconds.
\<close>

definition probeTimeout :: Context where
  "probeTimeout = WithTimeout Background (2 * 1000000000)"

text \<open>
  \<open>SupportsDoH3\<close>. Whether the deadline has passed shows in the environment's
  answers only; \<open>alpnList\<close> is a parameter the body never reads.
\<close>

definition SupportsDoH3 ::
  "environment \<Rightarrow> string \<Rightarrow> string list \<Rightarrow> string list \<Rightarrow> world \<Rightarrow> panic + (bool \<times> world)" where
  "SupportsDoH3 env endpoint bootstrapIPs alpnList w =
     (let ctx = probeTimeout in
      case probeDoH3 env ctx endpoint bootstrapIPs w of
        (None, w1) \<Rightarrow> Inr (True, w1)
      | (Some err, w1) \<Rightarrow>
          (case probeDoH3Request env ctx endpoint bootstrapIPs w1 of
             Inl p \<Rightarrow> Inl p
           | Inr (None, w2) \<Rightarrow> Inr (True, w2)
           | Inr (Some err2, w2) \<Rightarrow> Inr (False, w2)))"

section \<open>The transport resolver\<close>

text \<open>
  \<open>strings.EqualFold\<close>: the library's loop over the common ASCII prefix accepts
  equal bytes, and an upper-case letter (the smaller byte, from \<open>A\<close> to \<open>Z\<close>) with its
  lower-case form (the larger byte); at the first byte outside ASCII the library changes
  to its Unicode loop, which is the parameter \<open>uf\<close>.
\<close>

definition upperLowerPair :: "char \<Rightarrow> char \<Rightarrow> bool" where
  "upperLowerPair a b =
     (let sr = min (of_char a :: nat) (of_char b); tr = max (of_char a :: nat) (of_char b)
      in 65 \<le> sr \<and> sr \<le> 90 \<and> tr = sr + 32)"

fun EqualFold :: "(string \<Rightarrow> string \<Rightarrow> bool) \<Rightarrow> string \<Rightarrow> string \<Rightarrow> bool" where
  "EqualFold uf [] t = (t = [])"
| "EqualFold uf (a # s) [] = False"
| "EqualFold uf (a # s) (b # t) =
     (if 128 \<le> (of_char a :: nat) \<or> 128 \<le> (of_char b :: nat) then uf (a # s) (b # t)
      else if b = a then EqualFold uf s t
      else if upperLowerPair a b then EqualFold uf s t
      else False)"

text \<open>The function that \<open>RoundTrip\<close> hands to \<open>once.Do\<close>.\<close>

definition initTransport :: "environment \<Rightarrow> DOHEndpoint \<Rightarrow> DOHEndpoint" where
  "initTransport env e =
     (if transport e = None then
        (let addrs = endpointAddrs e in
         if DoH3Supported e then
           (let e1 = (if EqualFold (foldUnicode env) (Hostname e) ''dns.nextdns.io''
                      then e\<lparr>Hostname := ''doh3.dns.nextdns.io''\<rparr> else e)
            in e1\<lparr>transport := Some (newTransportH3 e1 addrs)\<rparr>)
         else e\<lparr>transport := Some (newTransportH2 e addrs)\<rparr>)
      else e)"

text \<open>
  \<open>sync.Once.Do\<close>, called by one goroutine at a time: the function runs if it has
  not run before, and the \<open>Once\<close> remembers that it has.
\<close>

definition onceDo :: "(DOHEndpoint \<Rightarrow> DOHEndpoint) \<Rightarrow> DOHEndpoint \<Rightarrow> DOHEndpoint" where
  "onceDo f e = (if once e then e else (f e)\<lparr>once := True\<rparr>)"

text \<open>
  \<open>RoundTrip\<close> returns the endpoint as the call leaves it, the transport's answer and
  the world. A nil transport after \<open>once.Do\<close> panics at \<open>e.transport.RoundTrip\<close>.
\<close>

definition RoundTrip ::
  "environment \<Rightarrow> DOHEndpoint \<Rightarrow> request \<Rightarrow> world \<Rightarrow> panic + (DOHEndpoint \<times> rt_result \<times> world)" where
  "RoundTrip env e req w =
     (let e' = onceDo (initTransport env) e in
      case transport e' of
        None \<Rightarrow> Inl NilPointerDereference
      | Some tr \<Rightarrow> (case doRoundTrip env tr req w of (res, w') \<Rightarrow> Inr (e', res, w')))"

section \<open>The endpoint's text form and equality\<close>

definition String :: "DOHEndpoint \<Rightarrow> string" where
  "String e =
     (if length (Bootstrap e) \<noteq> 0
      then ''https://'' @ Hostname e @ Path e @ ''#'' @ Join (Bootstrap e) '',''
      else ''https://'' @ Hostname e @ Path e)"

text \<open>
  The argument of \<open>Equal\<close> has the interface type \<open>Endpoint\<close>: a \<open>DOHEndpoint\<close>, or
  a value of another type that implements the interface. Endpoints are compared
  through pointers that are not nil.
\<close>

datatype Endpoint = DOH DOHEndpoint | OtherEndpoint

text \<open>The index loop of \<open>Equal\<close> over the bootstrap addresses.\<close>

fun Equal_loop :: "string list \<Rightarrow> string list \<Rightarrow> nat list \<Rightarrow> bool" where
  "Equal_loop b b2 [] = True"
| "Equal_loop b b2 (i # is) = (if b ! i \<noteq> b2 ! i then False else Equal_loop b b2 is)"

definition Equal :: "DOHEndpoint \<Rightarrow> Endpoint \<Rightarrow> bool" where
  "Equal e x =
     (case x of
        DOH e2 \<Rightarrow>
          if Hostname e \<noteq> Hostname e2 \<or> Path e \<noteq> Path e2 \<or>
             length (Bootstrap e) \<noteq> length (Bootstrap e2)
          then False
          else Equal_loop (Bootstrap e) (Bootstrap e2) [0..<length (Bootstrap e)]
      | OtherEndpoint \<Rightarrow> False)"

section \<open>The exchanger\<close>

text \<open>\<open>%d\<close> of an integer: decimal digits, with a minus sign for a negative value.\<close>

fun digits :: "nat \<Rightarrow> string" where
  "digits n =
     (if n < 10 then [''0123456789'' ! n]
      else digits (n div 10) @ [''0123456789'' ! (n mod 10)])"

declare digits.simps [simp del]

definition formatInt :: "int \<Rightarrow> string" where
  "formatInt i = (if i < 0 then ''-'' @ digits (nat (- i)) else digits (nat i))"

text \<open>
  The text of the error that \<open>Exchange\<close> returns for a failed round trip. For an
  unknown-authority error the code reads \<open>uaeErr.Cert.Subject\<close> and
  \<open>uaeErr.Cert.Issuer\<close>, which panics when \<open>Cert\<close> is nil.
\<close>

fun roundtripError :: "error \<Rightarrow> panic + string" where
  "roundtripError (UnknownAuthorityError msg None) = Inl NilPointerDereference"
| "roundtripError (UnknownAuthorityError msg (Some (subject, issuer))) =
     Inr (''roundtrip: '' @ msg @ '' (subject='' @ subject @ '', issuer='' @ issuer @ '')'')"
| "roundtripError err = Inr (''roundtrip: '' @ Error err)"

text \<open>
  \<open>Exchange\<close> returns \<open>(n, err)\<close> (\<open>None\<close> for a nil error, else the error's text),
  the caller's buffer, the endpoint and the world as the call leaves them. As in
  \<open>probeDoH3Request\<close>, a URL that \<open>http.NewRequest\<close> rejects leaves \<open>req\<close> nil. The
  caller's context may be nil (\<open>None\<close>), for which \<open>req.WithContext\<close> panics. The
  deferred \<open>res.Body.Close()\<close> is the last effect of every path past the error check.
\<close>

definition Exchange ::
  "environment \<Rightarrow> DOHEndpoint \<Rightarrow> Context option \<Rightarrow> string \<Rightarrow> string \<Rightarrow> world \<Rightarrow>
     panic + ((nat \<times> string option) \<times> string \<times> DOHEndpoint \<times> world)" where
  "Exchange env e ctx payload buf w =
     (let url = ''https://nowhere'' @ Path e in
      if \<not> newRequest env url then Inl NilPointerDereference
      else
        (case ctx of
           None \<Rightarrow> Inl NilContext
         | Some c \<Rightarrow>
             (let req = \<lparr>Ctx = c, Method = ''POST'', URL = url,
                         ContentType = ''application/dns-message'', Payload = Some payload\<rparr>
              in case RoundTrip env e req w of
                   Inl p \<Rightarrow> Inl p
                 | Inr (e', RoundTripErr err, w') \<Rightarrow>
                     (case roundtripError err of
                        Inl p \<Rightarrow> Inl p
                      | Inr msg \<Rightarrow> Inr ((0, Some msg), buf, e', w'))
                 | Inr (e', RoundTripErrResp err resp, w') \<Rightarrow>
                     (case roundtripError err of
                        Inl p \<Rightarrow> Inl p
                      | Inr msg \<Rightarrow> Inr ((0, Some msg), buf, e', w'))
                 | Inr (e', RoundTripOK res, w') \<Rightarrow>
                     if StatusCode res \<noteq> 200
                     then Inr ((0, Some (''status: '' @ formatInt (StatusCode res))), buf, e',
                               closeBody res w')
                     else
                       (case readBody res buf w' of
                          ((n, err, buf'), w'') \<Rightarrow>
                            if err \<noteq> None \<and> err \<noteq> Some EOF
                            then Inr ((n, Some (''read: '' @ Error (the err))), buf', e',
                                      closeBody res w'')
                            else Inr ((n, None), buf', e', closeBody res w'')))))"

section \<open>Vocabulary of the properties\<close>

text \<open>The dials of the handshake probe for a list of bootstrap addresses, in order.\<close>

definition dialEvents :: "Context \<Rightarrow> string \<Rightarrow> string list \<Rightarrow> event list" where
  "dialEvents ctx endpoint ips =
     map (\<lambda>ip. DialAddrEarly ctx (JoinHostPort ip ''443'') endpoint [''h3'']) ips"

text \<open>
  The request of the application-layer probe, and the transport it goes through for
  one bootstrap address.
\<close>

definition probeRequest :: "Context \<Rightarrow> string \<Rightarrow> request" where
  "probeRequest ctx endpoint =
     \<lparr>Ctx = ctx, Method = ''POST'', URL = ''https://'' @ endpoint @ ''/dns-query'',
      ContentType = ''application/dns-message'', Payload = None\<rparr>"

definition probeTransport :: "string \<Rightarrow> string \<Rightarrow> transport" where
  "probeTransport endpoint ip = TransportH3 endpoint [ip]"

text \<open>A round trip that yields a response with status 200 and no error.\<close>

fun is200 :: "rt_result \<Rightarrow> bool" where
  "is200 (RoundTripOK resp) = (StatusCode resp = 200)"
| "is200 (RoundTripErr err) = False"
| "is200 (RoundTripErrResp err resp) = False"

text \<open>The round trips recorded in a trace, in order.\<close>

fun requestsOf :: "event list \<Rightarrow> (transport \<times> request) list" where
  "requestsOf [] = []"
| "requestsOf (TransportRoundTrip tr req # evs) = (tr, req) # requestsOf evs"
| "requestsOf (ev # evs) = requestsOf evs"

text \<open>An environment and a world for running the code on concrete inputs.\<close>

definition sampleEnv :: environment where
  "sampleEnv =
     \<lparr>dial = (\<lambda>t ctx addr serverName nextProtos.
                if t = 5 then None else Some (OtherError ''timeout'')),
      roundTrip = (\<lambda>t tr req.
                if t = 3 then RoundTripOK \<lparr>StatusCode = 200, Ready = ''ab'', ReadErr = Some EOF\<rparr>
                else if t = 2 then RoundTripErr DeadlineExceeded
                else RoundTripOK \<lparr>StatusCode = 404, Ready = '''', ReadErr = Some EOF\<rparr>),
      newRequest = (\<lambda>url. True),
      foldUnicode = (\<lambda>s t. False)\<rparr>"

text \<open>
  The sample environment with an \<open>http.NewRequest\<close> that rejects a URL whose host
  (what follows \<open>https://\<close> up to the next slash) has a space, as \<open>url.Parse\<close> does.
\<close>

definition strictEnv :: environment where
  "strictEnv =
     sampleEnv\<lparr>newRequest :=
       (\<lambda>url. CHR '' '' \<notin> set (takeWhile (\<lambda>c. c \<noteq> CHR ''/'') (drop 8 url)))\<rparr>"

definition sampleEndpoint :: DOHEndpoint where
  "sampleEndpoint =
     \<lparr>Hostname = ''DNS.NextDNS.io'', Path = ''/abc'',
      Bootstrap = [''45.90.28.0'', ''45.90.30.0''], ALPN = [''h3'', ''h2''],
      DoH3Supported = True, FastestIP = ''45.90.30.0'', once = False, transport = None\<rparr>"

section \<open>Properties of the address ordering\<close>

lemma Contains_single: "Contains s [c] = (c \<in> set s)"
  by (induction s) auto

lemma defaultPort_colon: "CHR '':'' \<in> set ip \<Longrightarrow> defaultPort ip = ip"
  by (simp add: defaultPort_def Contains_single)

lemma defaultPort_no_colon: "CHR '':'' \<notin> set ip \<Longrightarrow> defaultPort ip = ip @ '':443''"
  by (simp add: defaultPort_def Contains_single JoinHostPort_def)

lemma endpointAddrs_no_fastest:
  "FastestIP e = '''' \<Longrightarrow> endpointAddrs e = map defaultPort (Bootstrap e)"
  by (simp add: endpointAddrs_def)

lemma endpointAddrs_fastest:
  "FastestIP e \<noteq> '''' \<Longrightarrow>
   endpointAddrs e =
     defaultPort (FastestIP e) #
       filter (\<lambda>a. a \<noteq> defaultPort (FastestIP e)) (map defaultPort (Bootstrap e))"
  by (simp add: endpointAddrs_def Let_def)

lemma count_list_filter_neq: "count_list (filter (\<lambda>a. a \<noteq> p) xs) p = 0"
  by (induction xs) auto

lemma filter_neq_absent: "p \<notin> set xs \<Longrightarrow> filter (\<lambda>a. a \<noteq> p) xs = xs"
  by (induction xs) auto

text \<open>
  What \<open>endpointAddrs\<close> does with a non-empty preferred address, in terms of the
  code's own port normalisation \<open>defaultPort\<close>: the result starts with the normalised
  preferred address, which occurs in it exactly once; the rest of the result is the
  normalised bootstrap list without the occurrences of that address, in the original
  order.
\<close>

lemma endpointAddrs_preferred_first:
  assumes "FastestIP e \<noteq> ''''"
  shows "endpointAddrs e \<noteq> [] \<and>
         hd (endpointAddrs e) = defaultPort (FastestIP e) \<and>
         count_list (endpointAddrs e) (defaultPort (FastestIP e)) = 1 \<and>
         tl (endpointAddrs e) =
           filter (\<lambda>a. a \<noteq> defaultPort (FastestIP e)) (map defaultPort (Bootstrap e)) \<and>
         subseq (tl (endpointAddrs e)) (map defaultPort (Bootstrap e)) \<and>
         (defaultPort (FastestIP e) \<notin> set (map defaultPort (Bootstrap e)) \<longrightarrow>
            endpointAddrs e = defaultPort (FastestIP e) # map defaultPort (Bootstrap e))"
proof -
  let ?p = "defaultPort (FastestIP e)"
  let ?bs = "map defaultPort (Bootstrap e)"
  have eq: "endpointAddrs e = ?p # filter (\<lambda>a. a \<noteq> ?p) ?bs"
    using assms by (rule endpointAddrs_fastest)
  have once: "count_list (endpointAddrs e) ?p = 1"
    unfolding eq by (simp add: count_list_filter_neq)
  have sub: "subseq (filter (\<lambda>a. a \<noteq> ?p) ?bs) ?bs"
    by (rule subseq_filter_left)
  have absent: "?p \<notin> set ?bs \<longrightarrow> endpointAddrs e = ?p # ?bs"
    unfolding eq by (simp add: filter_neq_absent)
  from eq once sub absent show ?thesis by simp
qed

text \<open>
  Claim C4. The claim asks for the preferred address first, normalised to carry a
  port, exactly once and with no duplicate left. For the bare IPv6 literal
  \<open>2a07:a8c0::\<close> as preferred address and \<open>[2a07:a8c0::]:443\<close> as only bootstrap
  address, \<open>endpointAddrs\<close> returns both: the literal has a colon, so it is put first
  as it is, and the library's parser finds no port in it; the address it would be with
  port 443, as \<open>net.JoinHostPort\<close> writes it, is the bootstrap address, which differs
  from the literal as a string and so stays in the result behind it.
\<close>

theorem endpointAddrs_ipv6_preferred_duplicate:
  "endpointAddrs \<lparr>Hostname = ''dns.nextdns.io'', Path = '''',
        Bootstrap = [''[2a07:a8c0::]:443''], ALPN = [], DoH3Supported = False,
        FastestIP = ''2a07:a8c0::'', once = False, transport = None\<rparr> =
     [''2a07:a8c0::'', ''[2a07:a8c0::]:443''] \<and>
   SplitHostPort ''2a07:a8c0::'' = Inl TooManyColons \<and>
   JoinHostPort ''2a07:a8c0::'' ''443'' = ''[2a07:a8c0::]:443''"
  by (simp add: endpointAddrs_def defaultPort_def JoinHostPort_def SplitHostPort_def
      IndexByte_def LastIndexByte_def)

lemma endpointAddrs_empty:
  "Bootstrap e = [] \<Longrightarrow> FastestIP e = '''' \<Longrightarrow> endpointAddrs e = []"
  by (simp add: endpointAddrs_def)

text \<open>
  Claim C5. The claim asks for an explicit port on every returned address. For the
  bare IPv6 literal \<open>2a07:a8c0::\<close> as only bootstrap address and no preferred address,
  \<open>endpointAddrs\<close> returns the literal unchanged, since the literal has a colon; the
  library's parser finds no port in it. \<open>net.JoinHostPort\<close>, which the handshake
  probe applies to every bootstrap address, gives \<open>[2a07:a8c0::]:443\<close>, in which the
  parser finds port 443.
\<close>

theorem endpointAddrs_ipv6_no_port:
  "endpointAddrs \<lparr>Hostname = ''dns.nextdns.io'', Path = '''',
        Bootstrap = [''2a07:a8c0::''], ALPN = [], DoH3Supported = False,
        FastestIP = '''', once = False, transport = None\<rparr> = [''2a07:a8c0::''] \<and>
   SplitHostPort ''2a07:a8c0::'' = Inl TooManyColons \<and>
   JoinHostPort ''2a07:a8c0::'' ''443'' = ''[2a07:a8c0::]:443'' \<and>
   SplitHostPort ''[2a07:a8c0::]:443'' = Inr (''2a07:a8c0::'', ''443'')"
  by (simp add: endpointAddrs_def defaultPort_def JoinHostPort_def SplitHostPort_def
      IndexByte_def LastIndexByte_def)

section \<open>Properties of the capability prober\<close>

text \<open>
  Claim C6. With an empty bootstrap list \<open>SupportsDoH3\<close> returns false, for every
  hostname and ALPN list, and both probes report \<open>context.DeadlineExceeded\<close>; the
  world is returned as it was given, so no dial and no request has been issued.
\<close>

theorem SupportsDoH3_empty_bootstrap:
  "SupportsDoH3 env endpoint [] alpnList w = Inr (False, w) \<and>
   probeDoH3 env ctx endpoint [] w = (Some DeadlineExceeded, w) \<and>
   probeDoH3Request env ctx endpoint [] w = Inr (Some DeadlineExceeded, w)"
  by (simp add: SupportsDoH3_def probeDoH3_def probeDoH3Request_def)

text \<open>
  Claim C10. Two calls of \<open>SupportsDoH3\<close> that differ only in the ALPN list give
  the same outcome: the same boolean and the same trace of dials and requests.
\<close>

theorem SupportsDoH3_ignores_alpnList:
  "SupportsDoH3 env endpoint ips alpn1 w = SupportsDoH3 env endpoint ips alpn2 w"
  by (simp add: SupportsDoH3_def)

lemma probeDoH3_loop_success:
  "k < length ips \<Longrightarrow>
   \<forall>i<k. dial env (clock w + i) ctx (JoinHostPort (ips ! i) ''443'') endpoint [''h3''] \<noteq> None \<Longrightarrow>
   dial env (clock w + k) ctx (JoinHostPort (ips ! k) ''443'') endpoint [''h3''] = None \<Longrightarrow>
   probeDoH3_loop env ctx endpoint ips lastErr w =
     (None, \<lparr>clock = clock w + Suc k,
             events = events w @ dialEvents ctx endpoint (take (Suc k) ips)\<rparr>)"
proof (induction ips arbitrary: k w lastErr)
  case Nil
  then show ?case by simp
next
  case (Cons ip ips)
  show ?case
  proof (cases k)
    case 0
    with Cons.prems show ?thesis
      by (simp add: doDial_def dialEvents_def)
  next
    case (Suc k')
    let ?w' = "\<lparr>clock = Suc (clock w),
               events = events w @ [DialAddrEarly ctx (JoinHostPort ip ''443'') endpoint [''h3'']]\<rparr>"
    from Cons.prems(2) Suc
    have first: "dial env (clock w) ctx (JoinHostPort ip ''443'') endpoint [''h3''] \<noteq> None"
      by (metis add.right_neutral nth_Cons_0 zero_less_Suc)
    then obtain err where err: "dial env (clock w) ctx (JoinHostPort ip ''443'') endpoint [''h3''] = Some err"
      by blast
    have len: "k' < length ips" using Cons.prems(1) Suc by simp
    have fails: "\<forall>i<k'. dial env (clock ?w' + i) ctx (JoinHostPort (ips ! i) ''443'') endpoint [''h3''] \<noteq> None"
    proof (intro allI impI)
      fix i assume "i < k'"
      then have "Suc i < k" using Suc by simp
      with Cons.prems(2) have "dial env (clock w + Suc i) ctx (JoinHostPort ((ip # ips) ! Suc i) ''443'') endpoint [''h3''] \<noteq> None"
        by blast
      then show "dial env (clock ?w' + i) ctx (JoinHostPort (ips ! i) ''443'') endpoint [''h3''] \<noteq> None"
        by simp
    qed
    have ok: "dial env (clock ?w' + k') ctx (JoinHostPort (ips ! k') ''443'') endpoint [''h3''] = None"
      using Cons.prems(3) Suc by simp
    have "probeDoH3_loop env ctx endpoint (ip # ips) lastErr w = probeDoH3_loop env ctx endpoint ips (Some err) ?w'"
      using err by (simp add: doDial_def)
    also have "\<dots> = (None, \<lparr>clock = clock ?w' + Suc k',
             events = events ?w' @ dialEvents ctx endpoint (take (Suc k') ips)\<rparr>)"
      by (rule Cons.IH [OF len fails ok])
    finally show ?thesis using Suc by (simp add: dialEvents_def)
  qed
qed

lemma probeDoH3_loop_all_fail:
  "ips \<noteq> [] \<Longrightarrow>
   \<forall>i<length ips. dial env (clock w + i) ctx (JoinHostPort (ips ! i) ''443'') endpoint [''h3''] \<noteq> None \<Longrightarrow>
   probeDoH3_loop env ctx endpoint ips lastErr w =
     (dial env (clock w + (length ips - 1)) ctx (JoinHostPort (last ips) ''443'') endpoint [''h3''],
      \<lparr>clock = clock w + length ips, events = events w @ dialEvents ctx endpoint ips\<rparr>)"
proof (induction ips arbitrary: w lastErr)
  case Nil
  then show ?case by simp
next
  case (Cons ip ips)
  let ?w' = "\<lparr>clock = Suc (clock w),
             events = events w @ [DialAddrEarly ctx (JoinHostPort ip ''443'') endpoint [''h3'']]\<rparr>"
  from Cons.prems(2)
  have first: "dial env (clock w) ctx (JoinHostPort ip ''443'') endpoint [''h3''] \<noteq> None"
    by (metis add.right_neutral nth_Cons_0 length_Cons zero_less_Suc)
  then obtain err where err: "dial env (clock w) ctx (JoinHostPort ip ''443'') endpoint [''h3''] = Some err"
    by blast
  have step: "probeDoH3_loop env ctx endpoint (ip # ips) lastErr w = probeDoH3_loop env ctx endpoint ips (Some err) ?w'"
    using err by (simp add: doDial_def)
  show ?case
  proof (cases "ips = []")
    case True
    with step err show ?thesis by (simp add: dialEvents_def)
  next
    case False
    have fails: "\<forall>i<length ips. dial env (clock ?w' + i) ctx (JoinHostPort (ips ! i) ''443'') endpoint [''h3''] \<noteq> None"
    proof (intro allI impI)
      fix i assume "i < length ips"
      then have "Suc i < length (ip # ips)" by simp
      with Cons.prems(2) have "dial env (clock w + Suc i) ctx (JoinHostPort ((ip # ips) ! Suc i) ''443'') endpoint [''h3''] \<noteq> None"
        by blast
      then show "dial env (clock ?w' + i) ctx (JoinHostPort (ips ! i) ''443'') endpoint [''h3''] \<noteq> None"
        by simp
    qed
    have idx: "Suc (clock w + (length ips - Suc 0)) = clock w + length ips"
      using False by (cases ips) simp_all
    from Cons.IH [OF False fails, of "Some err"] step False
    show ?thesis by (simp add: dialEvents_def idx)
  qed
qed


text \<open>
  Claim C2. When the handshake with the address at position \<open>k\<close> (counted from 0)
  succeeds and the handshakes with all earlier addresses fail, \<open>probeDoH3\<close> returns
  nil, and the dials it has issued are those for the first \<open>k + 1\<close> addresses, in list
  order, each with port 443, the endpoint as server name and \<open>h3\<close> offered: no later
  address is tried.
\<close>

theorem probeDoH3_short_circuit:
  assumes "k < length ips"
    and "\<forall>i<k. dial env (clock w + i) ctx (JoinHostPort (ips ! i) ''443'') endpoint [''h3''] \<noteq> None"
    and "dial env (clock w + k) ctx (JoinHostPort (ips ! k) ''443'') endpoint [''h3''] = None"
  shows "probeDoH3 env ctx endpoint ips w =
           (None, \<lparr>clock = clock w + Suc k,
                   events = events w @ dialEvents ctx endpoint (take (Suc k) ips)\<rparr>)"
proof -
  from assms(1) have "length ips \<noteq> 0" by auto
  then have "probeDoH3 env ctx endpoint ips w = probeDoH3_loop env ctx endpoint ips None w"
    by (simp add: probeDoH3_def)
  with probeDoH3_loop_success [OF assms] show ?thesis by simp
qed

theorem probeDoH3_short_circuit_witness:
  "probeDoH3 sampleEnv probeTimeout ''dns.nextdns.io'' [''45.90.28.0'', ''2a07:a8c0::'', ''45.90.30.0'']
     \<lparr>clock = 4, events = []\<rparr> =
   (None, \<lparr>clock = 6, events =
      [DialAddrEarly probeTimeout ''45.90.28.0:443'' ''dns.nextdns.io'' [''h3''],
       DialAddrEarly probeTimeout ''[2a07:a8c0::]:443'' ''dns.nextdns.io'' [''h3'']]\<rparr>)"
proof -
  have len: "(1::nat) < length [''45.90.28.0'', ''2a07:a8c0::'', ''45.90.30.0'']"
    by simp
  have fails: "\<forall>i<1::nat. dial sampleEnv (clock \<lparr>clock = 4, events = []\<rparr> + i) probeTimeout
      (JoinHostPort ([''45.90.28.0'', ''2a07:a8c0::'', ''45.90.30.0''] ! i) ''443'')
      ''dns.nextdns.io'' [''h3''] \<noteq> None"
    by (simp add: sampleEnv_def)
  have ok: "dial sampleEnv (clock \<lparr>clock = 4, events = []\<rparr> + 1) probeTimeout
      (JoinHostPort ([''45.90.28.0'', ''2a07:a8c0::'', ''45.90.30.0''] ! 1) ''443'')
      ''dns.nextdns.io'' [''h3''] = None"
    by (simp add: sampleEnv_def)
  from probeDoH3_short_circuit [OF len fails ok]
  show ?thesis by (simp add: dialEvents_def JoinHostPort_def)
qed

lemma requestsOf_append: "requestsOf (xs @ ys) = requestsOf xs @ requestsOf ys"
  by (induction xs rule: requestsOf.induct) simp_all

lemma probeDoH3Request_loop_success:
  "newRequest env (''https://'' @ endpoint @ ''/dns-query'') \<Longrightarrow>
   j < length ips \<Longrightarrow>
   \<forall>i<j. \<not> is200 (roundTrip env (clock w + i) (probeTransport endpoint (ips ! i))
                     (probeRequest ctx endpoint)) \<Longrightarrow>
   roundTrip env (clock w + j) (probeTransport endpoint (ips ! j)) (probeRequest ctx endpoint) =
     RoundTripOK resp \<Longrightarrow>
   StatusCode resp = 200 \<Longrightarrow>
   \<exists>w'. probeDoH3Request_loop env ctx endpoint ips w = Inr (None, w') \<and>
        clock w' = clock w + Suc j \<and>
        requestsOf (events w') =
          requestsOf (events w) @
          map (\<lambda>ip. (probeTransport endpoint ip, probeRequest ctx endpoint)) (take (Suc j) ips) \<and>
        last (events w') = BodyClose resp"
proof (induction ips arbitrary: j w)
  case Nil
  then show ?case by simp
next
  case (Cons ip ips)
  let ?rt = "roundTrip env (clock w) (probeTransport endpoint ip) (probeRequest ctx endpoint)"
  let ?w1 = "\<lparr>clock = Suc (clock w),
             events = events w @ [TransportRoundTrip (probeTransport endpoint ip) (probeRequest ctx endpoint)]\<rparr>"
  show ?case
  proof (cases j)
    case 0
    with Cons.prems show ?thesis
      by (simp add: doRoundTrip_def closeBody_def newTransportH3_def probeTransport_def
          probeRequest_def requestsOf_append)
  next
    case (Suc j')
    from Cons.prems(3) Suc have not200: "\<not> is200 ?rt"
      by (metis add.right_neutral nth_Cons_0 zero_less_Suc)
    have len: "j' < length ips" using Cons.prems(2) Suc by simp
    obtain w1 where step: "probeDoH3Request_loop env ctx endpoint (ip # ips) w =
          probeDoH3Request_loop env ctx endpoint ips w1"
        and c1: "clock w1 = Suc (clock w)"
        and r1: "requestsOf (events w1) =
                 requestsOf (events w) @ [(probeTransport endpoint ip, probeRequest ctx endpoint)]"
    proof (cases ?rt)
      case (RoundTripOK r)
      with not200 have "StatusCode r \<noteq> 200" by simp
      with RoundTripOK Cons.prems(1) that [of "closeBody r ?w1"] show ?thesis
        by (simp add: doRoundTrip_def closeBody_def newTransportH3_def probeTransport_def
            probeRequest_def requestsOf_append)
    next
      case (RoundTripErr err)
      with Cons.prems(1) that [of ?w1] show ?thesis
        by (simp add: doRoundTrip_def newTransportH3_def probeTransport_def
            probeRequest_def requestsOf_append)
    next
      case (RoundTripErrResp err r)
      with Cons.prems(1) that [of "closeBody r ?w1"] show ?thesis
        by (simp add: doRoundTrip_def closeBody_def newTransportH3_def probeTransport_def
            probeRequest_def requestsOf_append)
    qed
    have f: "\<forall>i<j'. \<not> is200 (roundTrip env (clock w1 + i)
          (probeTransport endpoint (ips ! i)) (probeRequest ctx endpoint))"
    proof (intro allI impI)
      fix i assume "i < j'"
      then have "Suc i < j" using Suc by simp
      with Cons.prems(3) have "\<not> is200 (roundTrip env (clock w + Suc i)
          (probeTransport endpoint ((ip # ips) ! Suc i)) (probeRequest ctx endpoint))"
        by blast
      then show "\<not> is200 (roundTrip env (clock w1 + i) (probeTransport endpoint (ips ! i))
                     (probeRequest ctx endpoint))"
        using c1 by simp
    qed
    have ok: "roundTrip env (clock w1 + j') (probeTransport endpoint (ips ! j'))
          (probeRequest ctx endpoint) = RoundTripOK resp"
      using Cons.prems(4) Suc c1 by simp
    from Cons.IH [OF Cons.prems(1) len f ok Cons.prems(5)]
    obtain w' where "probeDoH3Request_loop env ctx endpoint ips w1 = Inr (None, w')"
      and "clock w' = clock w1 + Suc j'"
      and "requestsOf (events w') =
          requestsOf (events w1) @
          map (\<lambda>ip. (probeTransport endpoint ip, probeRequest ctx endpoint)) (take (Suc j') ips)"
      and "last (events w') = BodyClose resp"
      by blast
    with step c1 r1 Suc show ?thesis by simp
  qed
qed

lemma probeDoH3Request_loop_no200:
  "newRequest env (''https://'' @ endpoint @ ''/dns-query'') \<Longrightarrow>
   \<forall>i<length ips. \<not> is200 (roundTrip env (clock w + i) (probeTransport endpoint (ips ! i))
                     (probeRequest ctx endpoint)) \<Longrightarrow>
   \<exists>w'. probeDoH3Request_loop env ctx endpoint ips w = Inr (Some DeadlineExceeded, w') \<and>
        clock w' = clock w + length ips \<and>
        requestsOf (events w') =
          requestsOf (events w) @
          map (\<lambda>ip. (probeTransport endpoint ip, probeRequest ctx endpoint)) ips"
proof (induction ips arbitrary: w)
  case Nil
  then show ?case by simp
next
  case (Cons ip ips)
  let ?rt = "roundTrip env (clock w) (probeTransport endpoint ip) (probeRequest ctx endpoint)"
  let ?w1 = "\<lparr>clock = Suc (clock w),
             events = events w @ [TransportRoundTrip (probeTransport endpoint ip) (probeRequest ctx endpoint)]\<rparr>"
  from Cons.prems(2) have not200: "\<not> is200 ?rt"
    by (metis add.right_neutral nth_Cons_0 length_Cons zero_less_Suc)
  obtain w1 where step: "probeDoH3Request_loop env ctx endpoint (ip # ips) w =
        probeDoH3Request_loop env ctx endpoint ips w1"
      and c1: "clock w1 = Suc (clock w)"
      and r1: "requestsOf (events w1) =
               requestsOf (events w) @ [(probeTransport endpoint ip, probeRequest ctx endpoint)]"
  proof (cases ?rt)
    case (RoundTripOK r)
    with not200 have "StatusCode r \<noteq> 200" by simp
    with RoundTripOK Cons.prems(1) that [of "closeBody r ?w1"] show ?thesis
      by (simp add: doRoundTrip_def closeBody_def newTransportH3_def probeTransport_def
          probeRequest_def requestsOf_append)
  next
    case (RoundTripErr err)
    with Cons.prems(1) that [of ?w1] show ?thesis
      by (simp add: doRoundTrip_def newTransportH3_def probeTransport_def
          probeRequest_def requestsOf_append)
  next
    case (RoundTripErrResp err r)
    with Cons.prems(1) that [of "closeBody r ?w1"] show ?thesis
      by (simp add: doRoundTrip_def closeBody_def newTransportH3_def probeTransport_def
          probeRequest_def requestsOf_append)
  qed
  have f: "\<forall>i<length ips. \<not> is200 (roundTrip env (clock w1 + i)
        (probeTransport endpoint (ips ! i)) (probeRequest ctx endpoint))"
  proof (intro allI impI)
    fix i assume "i < length ips"
    then have "Suc i < length (ip # ips)" by simp
    with Cons.prems(2) have "\<not> is200 (roundTrip env (clock w + Suc i)
        (probeTransport endpoint ((ip # ips) ! Suc i)) (probeRequest ctx endpoint))"
      by blast
    then show "\<not> is200 (roundTrip env (clock w1 + i) (probeTransport endpoint (ips ! i))
                   (probeRequest ctx endpoint))"
      using c1 by simp
  qed
  from Cons.IH [OF Cons.prems(1) f]
  obtain w' where "probeDoH3Request_loop env ctx endpoint ips w1 = Inr (Some DeadlineExceeded, w')"
    and "clock w' = clock w1 + length ips"
    and "requestsOf (events w') =
        requestsOf (events w1) @
        map (\<lambda>ip. (probeTransport endpoint ip, probeRequest ctx endpoint)) ips"
    by blast
  with step c1 r1 show ?case by simp
qed


lemma requestsOf_dialEvents: "requestsOf (dialEvents ctx endpoint ips) = []"
  by (induction ips) (simp_all add: dialEvents_def)

text \<open>
  Claim C3. Let the bootstrap list be non-empty, let every handshake fail, and let
  \<open>http.NewRequestWithContext\<close> accept the URL of the probe. Then \<open>probeDoH3\<close>
  has dialled every address in order and returns the error of the last dial, which is
  not nil. \<open>SupportsDoH3\<close> goes on with the request probe: if the request for the
  address at position \<open>j\<close> is the first to yield a response with status 200, the
  result is true, the requests issued are the POST requests with a nil body and content
  type \<open>application/dns-message\<close> to \<open>https://endpoint/dns-query\<close> for the first
  \<open>j + 1\<close> addresses in order, each through an HTTP/3 transport built for that
  single address, and the last effect is the closing of that response's body; if no
  request yields a 200, the result is false after a request for every address.
\<close>

theorem SupportsDoH3_fallback:
  assumes "ips \<noteq> []"
    and "\<forall>i<length ips.
           dial env (clock w + i) probeTimeout (JoinHostPort (ips ! i) ''443'') endpoint [''h3''] \<noteq> None"
    and "newRequest env (''https://'' @ endpoint @ ''/dns-query'')"
  shows "probeDoH3 env probeTimeout endpoint ips w =
           (dial env (clock w + (length ips - 1)) probeTimeout (JoinHostPort (last ips) ''443'')
              endpoint [''h3''],
            \<lparr>clock = clock w + length ips, events = events w @ dialEvents probeTimeout endpoint ips\<rparr>) \<and>
         dial env (clock w + (length ips - 1)) probeTimeout (JoinHostPort (last ips) ''443'')
              endpoint [''h3''] \<noteq> None \<and>
         (\<forall>j resp.
            j < length ips \<and>
            (\<forall>i<j. \<not> is200 (roundTrip env (clock w + length ips + i)
                               (probeTransport endpoint (ips ! i)) (probeRequest probeTimeout endpoint))) \<and>
            roundTrip env (clock w + length ips + j) (probeTransport endpoint (ips ! j))
              (probeRequest probeTimeout endpoint) = RoundTripOK resp \<and>
            StatusCode resp = 200 \<longrightarrow>
            (\<exists>w'. SupportsDoH3 env endpoint ips alpnList w = Inr (True, w') \<and>
                  requestsOf (events w') =
                    requestsOf (events w) @
                    map (\<lambda>ip. (probeTransport endpoint ip, probeRequest probeTimeout endpoint))
                      (take (Suc j) ips) \<and>
                  last (events w') = BodyClose resp)) \<and>
         ((\<forall>i<length ips. \<not> is200 (roundTrip env (clock w + length ips + i)
                               (probeTransport endpoint (ips ! i)) (probeRequest probeTimeout endpoint))) \<longrightarrow>
            (\<exists>w'. SupportsDoH3 env endpoint ips alpnList w = Inr (False, w') \<and>
                  requestsOf (events w') =
                    requestsOf (events w) @
                    map (\<lambda>ip. (probeTransport endpoint ip, probeRequest probeTimeout endpoint)) ips))"
proof -
  let ?wA = "\<lparr>clock = clock w + length ips, events = events w @ dialEvents probeTimeout endpoint ips\<rparr>"
  let ?last = "dial env (clock w + (length ips - 1)) probeTimeout (JoinHostPort (last ips) ''443'')
              endpoint [''h3'']"
  let ?reqs = "\<lambda>xs. map (\<lambda>ip. (probeTransport endpoint ip, probeRequest probeTimeout endpoint)) xs"
  from assms(1) have len: "length ips \<noteq> 0" by simp
  have "probeDoH3 env probeTimeout endpoint ips w = probeDoH3_loop env probeTimeout endpoint ips None w"
    using len by (simp add: probeDoH3_def)
  also have "\<dots> = (?last, ?wA)"
    by (rule probeDoH3_loop_all_fail [OF assms(1) assms(2)])
  finally have probeA: "probeDoH3 env probeTimeout endpoint ips w = (?last, ?wA)" .
  have "length ips - 1 < length ips" using len by simp
  with assms(2) have "dial env (clock w + (length ips - 1)) probeTimeout
      (JoinHostPort (ips ! (length ips - 1)) ''443'') endpoint [''h3''] \<noteq> None"
    by blast
  then have lastErr: "?last \<noteq> None"
    using assms(1) by (simp add: last_conv_nth)
  then obtain err where err: "?last = Some err" by blast
  have supports: "SupportsDoH3 env endpoint ips alpnList w =
      (case probeDoH3Request_loop env probeTimeout endpoint ips ?wA of
         Inl p \<Rightarrow> Inl p
       | Inr (None, w2) \<Rightarrow> Inr (True, w2)
       | Inr (Some err2, w2) \<Rightarrow> Inr (False, w2))"
    using probeA err len by (simp add: SupportsDoH3_def probeDoH3Request_def)
  have reqsA: "requestsOf (events ?wA) = requestsOf (events w)"
    by (simp add: requestsOf_append requestsOf_dialEvents)
  have found: "\<exists>w'. SupportsDoH3 env endpoint ips alpnList w = Inr (True, w') \<and>
                  requestsOf (events w') = requestsOf (events w) @ ?reqs (take (Suc j) ips) \<and>
                  last (events w') = BodyClose resp"
    if j: "j < length ips"
      and before: "\<forall>i<j. \<not> is200 (roundTrip env (clock w + length ips + i)
                               (probeTransport endpoint (ips ! i)) (probeRequest probeTimeout endpoint))"
      and at: "roundTrip env (clock w + length ips + j) (probeTransport endpoint (ips ! j))
              (probeRequest probeTimeout endpoint) = RoundTripOK resp"
      and ok: "StatusCode resp = 200"
    for j resp
  proof -
    have before': "\<forall>i<j. \<not> is200 (roundTrip env (clock ?wA + i)
                               (probeTransport endpoint (ips ! i)) (probeRequest probeTimeout endpoint))"
      using before by simp
    have at': "roundTrip env (clock ?wA + j) (probeTransport endpoint (ips ! j))
              (probeRequest probeTimeout endpoint) = RoundTripOK resp"
      using at by simp
    from probeDoH3Request_loop_success [OF assms(3) j before' at' ok]
    obtain w' where "probeDoH3Request_loop env probeTimeout endpoint ips ?wA = Inr (None, w')"
      and "requestsOf (events w') = requestsOf (events ?wA) @ ?reqs (take (Suc j) ips)"
      and "last (events w') = BodyClose resp"
      by blast
    with supports reqsA show ?thesis by simp
  qed
  have none: "\<exists>w'. SupportsDoH3 env endpoint ips alpnList w = Inr (False, w') \<and>
                  requestsOf (events w') = requestsOf (events w) @ ?reqs ips"
    if all: "\<forall>i<length ips. \<not> is200 (roundTrip env (clock w + length ips + i)
                               (probeTransport endpoint (ips ! i)) (probeRequest probeTimeout endpoint))"
  proof -
    have all': "\<forall>i<length ips. \<not> is200 (roundTrip env (clock ?wA + i)
                               (probeTransport endpoint (ips ! i)) (probeRequest probeTimeout endpoint))"
      using all by simp
    from probeDoH3Request_loop_no200 [OF assms(3) all']
    obtain w' where "probeDoH3Request_loop env probeTimeout endpoint ips ?wA = Inr (Some DeadlineExceeded, w')"
      and "requestsOf (events w') = requestsOf (events ?wA) @ ?reqs ips"
      by blast
    with supports reqsA show ?thesis by simp
  qed
  from probeA lastErr found none show ?thesis by blast
qed

theorem SupportsDoH3_fallback_witness:
  "fst (probeDoH3 sampleEnv probeTimeout ''dns.nextdns.io'' [''45.90.28.0'', ''45.90.30.0'']
          \<lparr>clock = 0, events = []\<rparr>) = Some (OtherError ''timeout'') \<and>
   (\<exists>w'. SupportsDoH3 sampleEnv ''dns.nextdns.io'' [''45.90.28.0'', ''45.90.30.0''] [''h2'']
           \<lparr>clock = 0, events = []\<rparr> = Inr (True, w') \<and>
         last (events w') = BodyClose \<lparr>StatusCode = 200, Ready = ''ab'', ReadErr = Some EOF\<rparr>) \<and>
   (\<exists>w'. SupportsDoH3 sampleEnv ''dns.nextdns.io'' [''45.90.28.0'', ''45.90.30.0''] [''h2'']
           \<lparr>clock = 10, events = []\<rparr> = Inr (False, w'))"
proof -
  let ?ips = "[''45.90.28.0'', ''45.90.30.0'']"
  let ?ep = "''dns.nextdns.io''"
  let ?resp = "\<lparr>StatusCode = 200, Ready = ''ab'', ReadErr = Some EOF\<rparr>"
  have ne: "?ips \<noteq> []" by simp
  have url: "newRequest sampleEnv (''https://'' @ ?ep @ ''/dns-query'')"
    by (simp add: sampleEnv_def)
  have fails0: "\<forall>i<length ?ips. dial sampleEnv (clock \<lparr>clock = 0, events = []\<rparr> + i) probeTimeout
      (JoinHostPort (?ips ! i) ''443'') ?ep [''h3''] \<noteq> None"
    by (simp add: sampleEnv_def)
  have fails10: "\<forall>i<length ?ips. dial sampleEnv (clock \<lparr>clock = 10, events = []\<rparr> + i) probeTimeout
      (JoinHostPort (?ips ! i) ''443'') ?ep [''h3''] \<noteq> None"
    by (simp add: sampleEnv_def)
  note at0 = SupportsDoH3_fallback [OF ne fails0 url, of "[''h2'']"]
  note at10 = SupportsDoH3_fallback [OF ne fails10 url, of "[''h2'']"]
  have a: "fst (probeDoH3 sampleEnv probeTimeout ?ep ?ips \<lparr>clock = 0, events = []\<rparr>) =
      Some (OtherError ''timeout'')"
    using at0 by (simp add: sampleEnv_def)
  have hyp: "(1::nat) < length ?ips \<and>
      (\<forall>i<1::nat. \<not> is200 (roundTrip sampleEnv (clock \<lparr>clock = 0, events = []\<rparr> + length ?ips + i)
          (probeTransport ?ep (?ips ! i)) (probeRequest probeTimeout ?ep))) \<and>
      roundTrip sampleEnv (clock \<lparr>clock = 0, events = []\<rparr> + length ?ips + 1)
          (probeTransport ?ep (?ips ! 1)) (probeRequest probeTimeout ?ep) = RoundTripOK ?resp \<and>
      StatusCode ?resp = 200"
    by (simp add: sampleEnv_def)
  from at0 hyp
  have b: "\<exists>w'. SupportsDoH3 sampleEnv ?ep ?ips [''h2''] \<lparr>clock = 0, events = []\<rparr> = Inr (True, w') \<and>
      last (events w') = BodyClose ?resp"
    by blast
  have hyp10: "\<forall>i<length ?ips. \<not> is200 (roundTrip sampleEnv
        (clock \<lparr>clock = 10, events = []\<rparr> + length ?ips + i)
        (probeTransport ?ep (?ips ! i)) (probeRequest probeTimeout ?ep))"
    by (simp add: sampleEnv_def)
  from at10 hyp10
  have c: "\<exists>w'. SupportsDoH3 sampleEnv ?ep ?ips [''h2''] \<lparr>clock = 10, events = []\<rparr> = Inr (False, w')"
    by blast
  from a b c show ?thesis by blast
qed


text \<open>
  Claim C3, as stated for every endpoint string, fails where the URL of the probe is
  rejected. For the endpoint \<open>bad host\<close> and one bootstrap address, in an environment
  where the handshake fails and no round trip yields a 200, \<open>http.NewRequestWithContext\<close>
  returns a nil request; the code drops its error and panics at \<open>req.Header.Set\<close>.
  No request is issued and \<open>SupportsDoH3\<close> does not return false.
\<close>

theorem SupportsDoH3_fallback_counterexample:
  "dial strictEnv 0 probeTimeout (JoinHostPort ''45.90.28.0'' ''443'') ''bad host'' [''h3'']
     = Some (OtherError ''timeout'') \<and>
   \<not> is200 (roundTrip strictEnv 1 (probeTransport ''bad host'' ''45.90.28.0'')
              (probeRequest probeTimeout ''bad host'')) \<and>
   \<not> newRequest strictEnv (''https://'' @ ''bad host'' @ ''/dns-query'') \<and>
   probeDoH3 strictEnv probeTimeout ''bad host'' [''45.90.28.0''] \<lparr>clock = 0, events = []\<rparr> =
     (Some (OtherError ''timeout''),
      \<lparr>clock = 1, events =
         [DialAddrEarly probeTimeout ''45.90.28.0:443'' ''bad host'' [''h3'']]\<rparr>) \<and>
   SupportsDoH3 strictEnv ''bad host'' [''45.90.28.0''] [] \<lparr>clock = 0, events = []\<rparr> =
     Inl NilPointerDereference"
  by (simp add: strictEnv_def sampleEnv_def SupportsDoH3_def probeDoH3_def
      probeDoH3Request_def doDial_def JoinHostPort_def probeTransport_def probeRequest_def)

section \<open>Properties of the transport resolver\<close>

lemma RoundTrip_initialised:
  "once e \<Longrightarrow> transport e = Some tr \<Longrightarrow>
   RoundTrip env e req w = Inr (e, doRoundTrip env tr req w)"
  by (simp add: RoundTrip_def onceDo_def split: prod.splits)

lemma EqualFold_doh3: "\<not> EqualFold uf ''doh3.dns.nextdns.io'' ''dns.nextdns.io''"
  by (simp add: upperLowerPair_def)

lemma Equal_loop_refl: "Equal_loop b b is"
  by (induction "is") simp_all

lemma Equal_refl: "Equal e (DOH e)"
  by (simp add: Equal_def Equal_loop_refl)

text \<open>
  Claim C7. The first \<open>RoundTrip\<close> of an endpoint whose \<open>Once\<close> has not run and
  whose transport is unset: with \<open>DoH3Supported\<close>, the transport is built by
  \<open>newTransportH3\<close> over \<open>endpointAddrs\<close>, from the endpoint whose hostname has
  been rewritten to \<open>doh3.dns.nextdns.io\<close> when \<open>strings.EqualFold\<close> equates it
  with \<open>dns.nextdns.io\<close>, and from the endpoint as it is otherwise; without
  \<open>DoH3Supported\<close>, the transport is built by \<open>newTransportH2\<close> over
  \<open>endpointAddrs\<close> and the hostname stays. The request goes through that transport.
\<close>

theorem RoundTrip_first_construction:
  assumes "\<not> once e" and "transport e = None"
  shows "(DoH3Supported e \<and> EqualFold (foldUnicode env) (Hostname e) ''dns.nextdns.io'' \<longrightarrow>
            RoundTrip env e req w =
              Inr (e\<lparr>Hostname := ''doh3.dns.nextdns.io'', once := True,
                     transport := Some (newTransportH3 (e\<lparr>Hostname := ''doh3.dns.nextdns.io''\<rparr>)
                                          (endpointAddrs e))\<rparr>,
                   doRoundTrip env (newTransportH3 (e\<lparr>Hostname := ''doh3.dns.nextdns.io''\<rparr>)
                                      (endpointAddrs e)) req w)) \<and>
         (DoH3Supported e \<and> \<not> EqualFold (foldUnicode env) (Hostname e) ''dns.nextdns.io'' \<longrightarrow>
            RoundTrip env e req w =
              Inr (e\<lparr>once := True, transport := Some (newTransportH3 e (endpointAddrs e))\<rparr>,
                   doRoundTrip env (newTransportH3 e (endpointAddrs e)) req w)) \<and>
         (\<not> DoH3Supported e \<longrightarrow>
            RoundTrip env e req w =
              Inr (e\<lparr>once := True, transport := Some (newTransportH2 e (endpointAddrs e))\<rparr>,
                   doRoundTrip env (newTransportH2 e (endpointAddrs e)) req w))"
  using assms
  by (simp add: RoundTrip_def onceDo_def initTransport_def Let_def split: prod.splits)

theorem RoundTrip_first_construction_witness:
  "RoundTrip sampleEnv sampleEndpoint (probeRequest Background ''nowhere'') \<lparr>clock = 0, events = []\<rparr> =
     Inr (sampleEndpoint\<lparr>Hostname := ''doh3.dns.nextdns.io'', once := True,
            transport := Some (TransportH3 ''doh3.dns.nextdns.io''
                                 [''45.90.30.0:443'', ''45.90.28.0:443''])\<rparr>,
          RoundTripOK \<lparr>StatusCode = 404, Ready = '''', ReadErr = Some EOF\<rparr>,
          \<lparr>clock = 1, events =
             [TransportRoundTrip
                (TransportH3 ''doh3.dns.nextdns.io'' [''45.90.30.0:443'', ''45.90.28.0:443''])
                (probeRequest Background ''nowhere'')]\<rparr>) \<and>
   RoundTrip sampleEnv (sampleEndpoint\<lparr>DoH3Supported := False\<rparr>) (probeRequest Background ''nowhere'')
       \<lparr>clock = 0, events = []\<rparr> =
     Inr (sampleEndpoint\<lparr>DoH3Supported := False, once := True,
            transport := Some (TransportH2 ''DNS.NextDNS.io''
                                 [''45.90.30.0:443'', ''45.90.28.0:443''])\<rparr>,
          RoundTripOK \<lparr>StatusCode = 404, Ready = '''', ReadErr = Some EOF\<rparr>,
          \<lparr>clock = 1, events =
             [TransportRoundTrip
                (TransportH2 ''DNS.NextDNS.io'' [''45.90.30.0:443'', ''45.90.28.0:443''])
                (probeRequest Background ''nowhere'')]\<rparr>)"
proof -
  have fresh: "\<not> once sampleEndpoint" "transport sampleEndpoint = None"
    by (simp_all add: sampleEndpoint_def)
  have fresh2: "\<not> once (sampleEndpoint\<lparr>DoH3Supported := False\<rparr>)"
    "transport (sampleEndpoint\<lparr>DoH3Supported := False\<rparr>) = None"
    by (simp_all add: sampleEndpoint_def)
  have h3: "DoH3Supported sampleEndpoint \<and>
      EqualFold (foldUnicode sampleEnv) (Hostname sampleEndpoint) ''dns.nextdns.io''"
    by (simp add: sampleEndpoint_def sampleEnv_def upperLowerPair_def)
  have h2: "\<not> DoH3Supported (sampleEndpoint\<lparr>DoH3Supported := False\<rparr>)"
    by simp
  have addrs: "endpointAddrs sampleEndpoint = [''45.90.30.0:443'', ''45.90.28.0:443'']"
    "endpointAddrs (sampleEndpoint\<lparr>DoH3Supported := False\<rparr>) =
       [''45.90.30.0:443'', ''45.90.28.0:443'']"
    by (simp_all add: sampleEndpoint_def endpointAddrs_def defaultPort_def JoinHostPort_def)
  from RoundTrip_first_construction [OF fresh, of sampleEnv "probeRequest Background ''nowhere''"
      "\<lparr>clock = 0, events = []\<rparr>"] h3
  have a: "RoundTrip sampleEnv sampleEndpoint (probeRequest Background ''nowhere'') \<lparr>clock = 0, events = []\<rparr> =
      Inr (sampleEndpoint\<lparr>Hostname := ''doh3.dns.nextdns.io'', once := True,
                     transport := Some (newTransportH3 (sampleEndpoint\<lparr>Hostname := ''doh3.dns.nextdns.io''\<rparr>)
                                          (endpointAddrs sampleEndpoint))\<rparr>,
                   doRoundTrip sampleEnv (newTransportH3 (sampleEndpoint\<lparr>Hostname := ''doh3.dns.nextdns.io''\<rparr>)
                                      (endpointAddrs sampleEndpoint)) (probeRequest Background ''nowhere'')
                      \<lparr>clock = 0, events = []\<rparr>)"
    by blast
  from RoundTrip_first_construction [OF fresh2, of sampleEnv "probeRequest Background ''nowhere''"
      "\<lparr>clock = 0, events = []\<rparr>"] h2
  have b: "RoundTrip sampleEnv (sampleEndpoint\<lparr>DoH3Supported := False\<rparr>) (probeRequest Background ''nowhere'')
        \<lparr>clock = 0, events = []\<rparr> =
      Inr (sampleEndpoint\<lparr>DoH3Supported := False, once := True,
             transport := Some (newTransportH2 (sampleEndpoint\<lparr>DoH3Supported := False\<rparr>)
                (endpointAddrs (sampleEndpoint\<lparr>DoH3Supported := False\<rparr>)))\<rparr>,
           doRoundTrip sampleEnv (newTransportH2 (sampleEndpoint\<lparr>DoH3Supported := False\<rparr>)
                (endpointAddrs (sampleEndpoint\<lparr>DoH3Supported := False\<rparr>))) (probeRequest Background ''nowhere'')
              \<lparr>clock = 0, events = []\<rparr>)"
    by blast
  have c: "Hostname sampleEndpoint = ''DNS.NextDNS.io''"
    by (simp add: sampleEndpoint_def)
  show ?thesis
    unfolding a b addrs
    by (simp add: newTransportH3_def newTransportH2_def doRoundTrip_def sampleEnv_def c)
qed

text \<open>
  Claim C9. The first \<open>RoundTrip\<close> of an endpoint with \<open>DoH3Supported\<close> whose
  hostname \<open>strings.EqualFold\<close> equates with \<open>dns.nextdns.io\<close> leaves the endpoint
  with the hostname \<open>doh3.dns.nextdns.io\<close>, which differs from the hostname before.
  \<open>String\<close> and \<open>Equal\<close> then answer for the rewritten hostname: the text form
  has changed, and the endpoint is no longer equal to an endpoint with the fields it had
  before the call, to which it was equal. Every later \<open>RoundTrip\<close> returns the
  endpoint unchanged, so the rewriting stays.
\<close>

theorem RoundTrip_rewrites_Hostname:
  assumes "\<not> once e" and "transport e = None" and "DoH3Supported e"
    and "EqualFold (foldUnicode env) (Hostname e) ''dns.nextdns.io''"
  shows "\<exists>e' res w'.
           RoundTrip env e req w = Inr (e', res, w') \<and>
           Hostname e' = ''doh3.dns.nextdns.io'' \<and>
           Hostname e \<noteq> ''doh3.dns.nextdns.io'' \<and>
           String e' = String (e\<lparr>Hostname := ''doh3.dns.nextdns.io''\<rparr>) \<and>
           String e' \<noteq> String e \<and>
           (\<forall>x. Equal e' x = Equal (e\<lparr>Hostname := ''doh3.dns.nextdns.io''\<rparr>) x) \<and>
           Equal e (DOH e) \<and> \<not> Equal e' (DOH e) \<and>
           (\<forall>env2 req2 w2. \<exists>res2 w2'. RoundTrip env2 e' req2 w2 = Inr (e', res2, w2'))"
proof -
  let ?h = "''doh3.dns.nextdns.io''"
  let ?tr = "newTransportH3 (e\<lparr>Hostname := ?h\<rparr>) (endpointAddrs e)"
  let ?e' = "e\<lparr>Hostname := ?h, once := True, transport := Some ?tr\<rparr>"
  from RoundTrip_initialised [of ?e' ?tr]
  have later: "\<And>env2 req2 w2. RoundTrip env2 ?e' req2 w2 = Inr (?e', doRoundTrip env2 ?tr req2 w2)"
    by simp
  have run: "RoundTrip env e req w = Inr (?e', doRoundTrip env ?tr req w)"
    using assms
    by (simp add: RoundTrip_def onceDo_def initTransport_def Let_def split: prod.splits)
  have changed: "Hostname e \<noteq> ?h"
    using assms(4) EqualFold_doh3 by metis
  have str: "String ?e' = String (e\<lparr>Hostname := ?h\<rparr>)"
    by (simp add: String_def)
  have str_neq: "String ?e' \<noteq> String e"
    using changed by (simp add: String_def)
  have eq: "\<And>x. Equal ?e' x = Equal (e\<lparr>Hostname := ?h\<rparr>) x"
    by (simp add: Equal_def split: Endpoint.splits)
  have neq: "\<not> Equal ?e' (DOH e)"
    using changed by (simp add: Equal_def)
  have again: "\<forall>env2 req2 w2. \<exists>res2 w2'. RoundTrip env2 ?e' req2 w2 = Inr (?e', res2, w2')"
  proof (intro allI)
    fix env2 req2 w2
    obtain res2 w2' where "doRoundTrip env2 ?tr req2 w2 = (res2, w2')"
      by (cases "doRoundTrip env2 ?tr req2 w2")
    with later [of env2 req2 w2] show "\<exists>res2 w2'. RoundTrip env2 ?e' req2 w2 = Inr (?e', res2, w2')"
      by simp
  qed
  obtain res w' where rw: "doRoundTrip env ?tr req w = (res, w')"
    by (cases "doRoundTrip env ?tr req w")
  have "RoundTrip env e req w = Inr (?e', res, w') \<and>
           Hostname ?e' = ?h \<and> Hostname e \<noteq> ?h \<and>
           String ?e' = String (e\<lparr>Hostname := ?h\<rparr>) \<and>
           String ?e' \<noteq> String e \<and>
           (\<forall>x. Equal ?e' x = Equal (e\<lparr>Hostname := ?h\<rparr>) x) \<and>
           Equal e (DOH e) \<and> \<not> Equal ?e' (DOH e) \<and>
           (\<forall>env2 req2 w2. \<exists>res2 w2'. RoundTrip env2 ?e' req2 w2 = Inr (?e', res2, w2'))"
    using run rw changed str str_neq eq Equal_refl neq again by simp
  then show ?thesis by blast
qed

theorem RoundTrip_rewrites_Hostname_witness:
  "\<exists>e' res w'.
     RoundTrip sampleEnv sampleEndpoint (probeRequest Background ''nowhere'') \<lparr>clock = 0, events = []\<rparr> =
       Inr (e', res, w') \<and>
     Hostname e' = ''doh3.dns.nextdns.io'' \<and>
     String e' = ''https://doh3.dns.nextdns.io/abc#45.90.28.0,45.90.30.0'' \<and>
     String sampleEndpoint = ''https://DNS.NextDNS.io/abc#45.90.28.0,45.90.30.0'' \<and>
     Equal sampleEndpoint (DOH sampleEndpoint) \<and>
     \<not> Equal e' (DOH sampleEndpoint)"
proof -
  have fresh: "\<not> once sampleEndpoint" "transport sampleEndpoint = None"
    "DoH3Supported sampleEndpoint"
    by (simp_all add: sampleEndpoint_def)
  have fold: "EqualFold (foldUnicode sampleEnv) (Hostname sampleEndpoint) ''dns.nextdns.io''"
    by (simp add: sampleEndpoint_def sampleEnv_def upperLowerPair_def)
  have s1: "String (sampleEndpoint\<lparr>Hostname := ''doh3.dns.nextdns.io''\<rparr>) =
      ''https://doh3.dns.nextdns.io/abc#45.90.28.0,45.90.30.0''"
    by (simp add: String_def sampleEndpoint_def)
  have s2: "String sampleEndpoint = ''https://DNS.NextDNS.io/abc#45.90.28.0,45.90.30.0''"
    by (simp add: String_def sampleEndpoint_def)
  from RoundTrip_rewrites_Hostname [OF fresh fold, of "probeRequest Background ''nowhere''"
      "\<lparr>clock = 0, events = []\<rparr>"]
  obtain e' res w' where
    "RoundTrip sampleEnv sampleEndpoint (probeRequest Background ''nowhere'') \<lparr>clock = 0, events = []\<rparr> =
       Inr (e', res, w')"
    and "Hostname e' = ''doh3.dns.nextdns.io''"
    and "String e' = String (sampleEndpoint\<lparr>Hostname := ''doh3.dns.nextdns.io''\<rparr>)"
    and "Equal sampleEndpoint (DOH sampleEndpoint)"
    and "\<not> Equal e' (DOH sampleEndpoint)"
    by blast
  with s1 s2 show ?thesis by auto
qed

section \<open>Properties of the exchanger\<close>

text \<open>
  Claim C8. When the request of \<open>Exchange\<close> can be built and its round trip returns
  a response without error whose status is not 200, for every context (a round trip
  takes place with a non-nil context only), payload and buffer \<open>Exchange\<close> returns
  \<open>n = 0\<close> and an error whose text is \<open>status: \<close> followed by the status code in
  decimal; the buffer is returned as it was given, and the only effects are the round
  trip and the closing of the response body: nothing is read.
\<close>

theorem Exchange_status_error:
  assumes "newRequest env (''https://nowhere'' @ Path e)"
    and "RoundTrip env e
           \<lparr>Ctx = ctx, Method = ''POST'', URL = ''https://nowhere'' @ Path e,
            ContentType = ''application/dns-message'', Payload = Some payload\<rparr> w =
         Inr (e', RoundTripOK res, w')"
    and "StatusCode res \<noteq> 200"
  shows "Exchange env e (Some ctx) payload buf w =
           Inr ((0, Some (''status: '' @ formatInt (StatusCode res))), buf, e',
                w'\<lparr>events := events w' @ [BodyClose res]\<rparr>) \<and>
         (\<exists>tr req. events w' = events w @ [TransportRoundTrip tr req])"
proof -
  have ex: "Exchange env e (Some ctx) payload buf w =
           Inr ((0, Some (''status: '' @ formatInt (StatusCode res))), buf, e',
                w'\<lparr>events := events w' @ [BodyClose res]\<rparr>)"
    using assms by (simp add: Exchange_def closeBody_def)
  have "\<exists>tr req. events w' = events w @ [TransportRoundTrip tr req]"
    using assms(2)
    by (auto simp: RoundTrip_def doRoundTrip_def Let_def split: option.splits)
  with ex show ?thesis by simp
qed


theorem Exchange_status_error_witness:
  "Exchange sampleEnv sampleEndpoint (Some (CallerContext 1)) ''query'' ''xxxx''
     \<lparr>clock = 0, events = []\<rparr> =
     Inr ((0, Some ''status: 404''), ''xxxx'',
          sampleEndpoint\<lparr>Hostname := ''doh3.dns.nextdns.io'', once := True,
            transport := Some (TransportH3 ''doh3.dns.nextdns.io''
                                 [''45.90.30.0:443'', ''45.90.28.0:443''])\<rparr>,
          \<lparr>clock = 1, events =
             [TransportRoundTrip
                (TransportH3 ''doh3.dns.nextdns.io'' [''45.90.30.0:443'', ''45.90.28.0:443''])
                \<lparr>Ctx = CallerContext 1, Method = ''POST'', URL = ''https://nowhere/abc'',
                 ContentType = ''application/dns-message'', Payload = Some ''query''\<rparr>,
              BodyClose \<lparr>StatusCode = 404, Ready = '''', ReadErr = Some EOF\<rparr>]\<rparr>)"
proof -
  let ?req = "\<lparr>Ctx = CallerContext 1, Method = ''POST'',
            URL = ''https://nowhere'' @ Path sampleEndpoint,
            ContentType = ''application/dns-message'', Payload = Some ''query''\<rparr>"
  let ?tr = "TransportH3 ''doh3.dns.nextdns.io'' [''45.90.30.0:443'', ''45.90.28.0:443'']"
  let ?e' = "sampleEndpoint\<lparr>Hostname := ''doh3.dns.nextdns.io'', once := True,
            transport := Some ?tr\<rparr>"
  let ?res = "\<lparr>StatusCode = 404, Ready = '''', ReadErr = Some EOF\<rparr>"
  let ?w' = "\<lparr>clock = 1, events = [TransportRoundTrip ?tr ?req]\<rparr>"
  have url: "newRequest sampleEnv (''https://nowhere'' @ Path sampleEndpoint)"
    by (simp add: sampleEnv_def)
  have addrs: "endpointAddrs sampleEndpoint = [''45.90.30.0:443'', ''45.90.28.0:443'']"
    by (simp add: sampleEndpoint_def endpointAddrs_def defaultPort_def JoinHostPort_def)
  have fold: "EqualFold (foldUnicode sampleEnv) (Hostname sampleEndpoint) ''dns.nextdns.io''"
    by (simp add: sampleEndpoint_def sampleEnv_def upperLowerPair_def)
  have fresh: "\<not> once sampleEndpoint" "transport sampleEndpoint = None"
    "DoH3Supported sampleEndpoint"
    by (simp_all add: sampleEndpoint_def)
  have rt: "RoundTrip sampleEnv sampleEndpoint ?req \<lparr>clock = 0, events = []\<rparr> =
      Inr (?e', RoundTripOK ?res, ?w')"
    using fresh fold
    by (simp add: RoundTrip_def onceDo_def initTransport_def addrs newTransportH3_def
        doRoundTrip_def sampleEnv_def)
  have st: "StatusCode ?res \<noteq> 200" by simp
  have path: "Path sampleEndpoint = ''/abc''" by (simp add: sampleEndpoint_def)
  from Exchange_status_error [OF url rt st, of "''xxxx''"]
  show ?thesis by (simp add: formatInt_def digits.simps path)
qed


end
